theory Spec2Isabelle
  imports Main
begin

section \<open>The conversion script \<^verbatim>\<open>convert_to_coreml.py\<close>\<close>

text \<open>
  The script is straight-line module-level code: a guarded pair of imports, two progress
  lines, one call of \<^verbatim>\<open>ct.convert\<close>, a progress line, one call of
  \<^verbatim>\<open>coreml_model.save\<close> and a last progress line. Everything it does
  is an effect, so the embedding passes an explicit world (the trace of effects and the
  file system) through the statements in source order, and every exception of the source is
  a branch that ends the run.
\<close>

subsection \<open>Exceptions and process termination\<close>

text \<open>
  The exception classes that matter to the script. \<^verbatim>\<open>ModuleNotFoundError\<close>
  is Python's subclass of \<^verbatim>\<open>ImportError\<close>; \<open>OtherError c\<close> is an
  instance of an ordinary exception class named \<open>c\<close> outside the subtree of
  \<^verbatim>\<open>ImportError\<close>.
\<close>

datatype py_exception =
    ImportError
  | ModuleNotFoundError
  | ConversionError
  | IOError
  | OtherError string

text \<open>What the clause \<^verbatim>\<open>except ImportError:\<close> of line 9 catches.\<close>

fun isinstance_ImportError :: "py_exception \<Rightarrow> bool" where
  "isinstance_ImportError ImportError = True"
| "isinstance_ImportError ModuleNotFoundError = True"
| "isinstance_ImportError ConversionError = False"
| "isinstance_ImportError IOError = False"
| "isinstance_ImportError (OtherError c) = False"

text \<open>
  How a run ends: the module body ran to its last line, \<^verbatim>\<open>exit(n)\<close> was
  called, or an exception reached the top level.
\<close>

datatype outcome =
    Completed
  | SystemExit int
  | Uncaught py_exception

text \<open>
  The status the interpreter hands to the operating system: 0 after the last statement, the
  argument of \<^verbatim>\<open>exit\<close>, and 1 after the traceback of an uncaught exception.
\<close>

fun exit_status :: "outcome \<Rightarrow> int" where
  "exit_status Completed = 0"
| "exit_status (SystemExit n) = n"
| "exit_status (Uncaught e) = 1"

subsection \<open>The arguments of the conversion call\<close>

text \<open>The members of \<^verbatim>\<open>ct.target\<close> for the iOS family.\<close>

datatype target = iOS13 | iOS14 | iOS15 | iOS16 | iOS17 | iOS18

text \<open>\<^verbatim>\<open>ct.TensorType(name=..., shape=...)\<close>\<close>

record TensorType =
  name :: string
  shape :: "int list"

text \<open>The keyword arguments of \<^verbatim>\<open>ct.convert\<close> at lines 20 to 27.\<close>

record convert_args =
  model :: string
  convert_to :: string
  minimum_deployment_target :: target
  inputs :: "TensorType list"

text \<open>The value \<^verbatim>\<open>ct.convert\<close> returns; its payload is opaque to the script.\<close>

datatype mlmodel = MLModel string

subsection \<open>Effects and the world\<close>

text \<open>
  The effects a run can have on its terminal and on the libraries: a line written by
  \<^verbatim>\<open>print\<close>, a line read from standard input, a call of the conversion
  routine with its arguments, a call of \<^verbatim>\<open>save\<close> with its path argument.
\<close>

datatype effect =
    Print string
  | ReadStdin
  | LibConvert convert_args
  | LibSave string

record world =
  trace :: "effect list"
  files :: "string \<rightharpoonup> string"

text \<open>
  What is outside the script. The imports, the translation of a source file that is present,
  the serialisation of a converted model and the failures of the save are black boxes: they
  are parameters, and no theorem below fixes what they compute.
\<close>

record env =
  cwd :: string
  argv :: "string list"
  environ :: "(string \<times> string) list"
  import_module :: "string \<Rightarrow> py_exception option"
  translate :: "convert_args \<Rightarrow> string \<Rightarrow> py_exception + mlmodel"
  package :: "mlmodel \<Rightarrow> string"
  save_fault :: "mlmodel \<Rightarrow> string \<Rightarrow> string option \<Rightarrow> (py_exception \<times> string option) option"

definition print :: "string \<Rightarrow> world \<Rightarrow> world" where
  "print s w = w\<lparr>trace := trace w @ [Print s]\<rparr>"

text \<open>The lines on standard output, and the library calls, read off a trace.\<close>

fun stdout_lines :: "effect list \<Rightarrow> string list" where
  "stdout_lines [] = []"
| "stdout_lines (Print s # es) = s # stdout_lines es"
| "stdout_lines (e # es) = stdout_lines es"

fun convert_calls :: "effect list \<Rightarrow> convert_args list" where
  "convert_calls [] = []"
| "convert_calls (LibConvert a # es) = a # convert_calls es"
| "convert_calls (e # es) = convert_calls es"

fun save_calls :: "effect list \<Rightarrow> string list" where
  "save_calls [] = []"
| "save_calls (LibSave p # es) = p # save_calls es"
| "save_calls (e # es) = save_calls es"

subsection \<open>Paths\<close>

text \<open>
  The operating system resolves a path that does not start with a slash against the working
  directory of the process, as \<^verbatim>\<open>os.path.join(os.getcwd(), p)\<close> does.
\<close>

fun is_absolute :: "string \<Rightarrow> bool" where
  "is_absolute [] = False"
| "is_absolute (c # cs) = (c = CHR ''/'')"

definition resolve :: "string \<Rightarrow> string \<Rightarrow> string" where
  "resolve d p =
     (if is_absolute p then p
      else if d = [] \<or> last d = CHR ''/'' then d @ p
      else d @ ''/'' @ p)"

subsection \<open>The library boundary\<close>

text \<open>
  Modelled from the spec: the body of \<^verbatim>\<open>ct.convert\<close> belongs to coremltools
  and is not in the repository. Section 4.1 of the specification gives its contract: it reads
  the source model at the given path and fails with a conversion error when the file is
  absent; on a file that is present the outcome is the black box \<open>translate\<close>. The call
  is recorded in the trace and leaves the file system as it was.
\<close>

definition ct_convert :: "env \<Rightarrow> convert_args \<Rightarrow> world \<Rightarrow> (py_exception + mlmodel) \<times> world" where
  "ct_convert E a w =
     (let w' = w\<lparr>trace := trace w @ [LibConvert a]\<rparr>
      in case files w (resolve (cwd E) (model a)) of
           None \<Rightarrow> (Inl ConversionError, w')
         | Some b \<Rightarrow> (translate E a b, w'))"

text \<open>
  Modelled from the spec: the body of \<^verbatim>\<open>MLModel.save\<close> belongs to coremltools
  and is not in the repository. By sections 4.1 and 8 of the specification it writes the
  converted model to the given path, replacing what was there, and is deterministic; it may
  fail, and a failure may leave anything at that path (the old artifact, nothing, a truncated
  one). It touches no other path.
\<close>

definition mlmodel_save :: "env \<Rightarrow> mlmodel \<Rightarrow> string \<Rightarrow> world \<Rightarrow> py_exception option \<times> world" where
  "mlmodel_save E m p w =
     (let q = resolve (cwd E) p;
          w' = w\<lparr>trace := trace w @ [LibSave p]\<rparr>
      in case save_fault E m q (files w q) of
           Some (e, left) \<Rightarrow> (Some e, w'\<lparr>files := (files w)(q := left)\<rparr>)
         | None \<Rightarrow> (None, w'\<lparr>files := (files w)(q \<mapsto> package E m)\<rparr>))"

subsection \<open>The script\<close>

text \<open>
  Lines 7 and 8, the body of the \<^verbatim>\<open>try\<close>: the second import runs only when
  the first returned. The result is the exception the body raised, if any.
\<close>

definition try_imports :: "env \<Rightarrow> py_exception option" where
  "try_imports E =
     (case import_module E ''coremltools'' of
        Some e \<Rightarrow> Some e
      | None \<Rightarrow> import_module E ''onnx'')"

text \<open>The literal of line 30.\<close>

definition output_path :: string where
  "output_path = ''/Users/ebowwa/apps/ios/VAD-Test/VAD-Test/Models/silero_vad.mlpackage''"

text \<open>Lines 6 to 31, statement by statement.\<close>

definition script :: "env \<Rightarrow> world \<Rightarrow> outcome \<times> world" where
  "script E w0 =
     (case try_imports E of
        Some e \<Rightarrow>
          if isinstance_ImportError e then
            (let w1 = print ''Please install required packages:'' w0;
                 w2 = print ''pip install coremltools onnx onnxruntime'' w1
             in (SystemExit 1, w2))
          else (Uncaught e, w0)
      | None \<Rightarrow>
          (let w1 = print ''Loading ONNX model...'' w0;
               w2 = print ''Converting to CoreML...'' w1
           in case ct_convert E
                     \<lparr>model = ''silero_vad.onnx'',
                      convert_to = ''mlprogram'',
                      minimum_deployment_target = iOS15,
                      inputs = [\<lparr>name = ''input'', shape = [1, 512]\<rparr>]\<rparr> w2 of
                (Inl e, w3) \<Rightarrow> (Uncaught e, w3)
              | (Inr coreml_model, w3) \<Rightarrow>
                  (let w4 = print ''Saving CoreML model...'' w3
                   in case mlmodel_save E coreml_model
                             ''/Users/ebowwa/apps/ios/VAD-Test/VAD-Test/Models/silero_vad.mlpackage'' w4 of
                        (Some e, w5) \<Rightarrow> (Uncaught e, w5)
                      | (None, w5) \<Rightarrow> (Completed, print ''Conversion complete!'' w5))))"

text \<open>One run of the process on a file system: the trace starts empty.\<close>

definition run :: "env \<Rightarrow> (string \<rightharpoonup> string) \<Rightarrow> outcome \<times> world" where
  "run E fs = script E \<lparr>trace = [], files = fs\<rparr>"


subsection \<open>Names for the statements\<close>

text \<open>
  The conversion request of section 3 of the specification, with the literals of lines 21
  to 26; \<open>script\<close> above carries the same literals inline, as the source does.
\<close>

definition conversion_request :: convert_args where
  "conversion_request =
     \<lparr>model = ''silero_vad.onnx'',
      convert_to = ''mlprogram'',
      minimum_deployment_target = iOS15,
      inputs = [\<lparr>name = ''input'', shape = [1, 512]\<rparr>]\<rparr>"

text \<open>
  An environment and a file system to run the script on: both libraries load, the working
  directory holds a source model the converter accepts, and the save does not fail.
\<close>

definition example_env :: env where
  "example_env =
     \<lparr>cwd = ''/work'',
      argv = [''convert_to_coreml.py''],
      environ = [(''HOME'', ''/home/dev'')],
      import_module = (\<lambda>n. None),
      translate = (\<lambda>a b. if b = ''onnx-graph'' then Inr (MLModel ''vad'') else Inl ConversionError),
      package = (\<lambda>m. case m of MLModel s \<Rightarrow> ''mlpackage:'' @ s),
      save_fault = (\<lambda>m q old. None)\<rparr>"

definition example_fs :: "string \<rightharpoonup> string" where
  "example_fs = [''/work/silero_vad.onnx'' \<mapsto> ''onnx-graph'']"

text \<open>
  Three more environments: the destination cannot be written, so the save raises and leaves the
  path as it was; coremltools is not installed; the import of onnx raises an exception that
  is not an \<^verbatim>\<open>ImportError\<close>.
\<close>

definition unwritable_env :: env where
  "unwritable_env = example_env\<lparr>save_fault := (\<lambda>m q old. Some (IOError, old))\<rparr>"

definition missing_env :: env where
  "missing_env =
     example_env\<lparr>import_module :=
       (\<lambda>n. if n = ''coremltools'' then Some ModuleNotFoundError else None)\<rparr>"

definition broken_env :: env where
  "broken_env =
     example_env\<lparr>import_module :=
       (\<lambda>n. if n = ''onnx'' then Some (OtherError ''AttributeError'') else None)\<rparr>"

text \<open>A file system that already holds an artifact at the destination.\<close>

definition example_fs_old :: "string \<rightharpoonup> string" where
  "example_fs_old = example_fs(output_path \<mapsto> ''mlpackage:old'')"

text \<open>The example environment launched from another working directory.\<close>

definition elsewhere_env :: env where
  "elsewhere_env = example_env\<lparr>cwd := ''/tmp''\<rparr>"

section \<open>The runs of the script, case by case\<close>

lemma run_import_error:
  assumes "try_imports E = Some e" and "isinstance_ImportError e"
  shows "run E fs =
           (SystemExit 1,
            \<lparr>trace = [Print ''Please install required packages:'',
                      Print ''pip install coremltools onnx onnxruntime''],
             files = fs\<rparr>)"
  using assms by (simp add: run_def script_def print_def)

lemma run_import_other:
  assumes "try_imports E = Some e" and "\<not> isinstance_ImportError e"
  shows "run E fs = (Uncaught e, \<lparr>trace = [], files = fs\<rparr>)"
  using assms by (simp add: run_def script_def)

lemma run_source_absent:
  assumes "try_imports E = None" and "fs (resolve (cwd E) ''silero_vad.onnx'') = None"
  shows "run E fs =
           (Uncaught ConversionError,
            \<lparr>trace = [Print ''Loading ONNX model...'', Print ''Converting to CoreML...'',
                      LibConvert conversion_request],
             files = fs\<rparr>)"
  using assms
  by (simp add: run_def script_def print_def ct_convert_def conversion_request_def)

lemma run_convert_raises:
  assumes "try_imports E = None" and "fs (resolve (cwd E) ''silero_vad.onnx'') = Some b"
    and "translate E conversion_request b = Inl e"
  shows "run E fs =
           (Uncaught e,
            \<lparr>trace = [Print ''Loading ONNX model...'', Print ''Converting to CoreML...'',
                      LibConvert conversion_request],
             files = fs\<rparr>)"
  using assms
  by (simp add: run_def script_def print_def ct_convert_def conversion_request_def)

lemma resolve_output_path [simp]: "resolve d output_path = output_path"
  by (simp add: resolve_def output_path_def)

lemma run_save_raises:
  assumes "try_imports E = None" and "fs (resolve (cwd E) ''silero_vad.onnx'') = Some b"
    and "translate E conversion_request b = Inr m"
    and "save_fault E m output_path (fs output_path) = Some (e, left)"
  shows "run E fs =
           (Uncaught e,
            \<lparr>trace = [Print ''Loading ONNX model...'', Print ''Converting to CoreML...'',
                      LibConvert conversion_request, Print ''Saving CoreML model...'',
                      LibSave output_path],
             files = fs(output_path := left)\<rparr>)"
  using assms
  by (simp add: run_def script_def print_def ct_convert_def mlmodel_save_def resolve_def Let_def
      conversion_request_def output_path_def)

lemma run_completes:
  assumes "try_imports E = None" and "fs (resolve (cwd E) ''silero_vad.onnx'') = Some b"
    and "translate E conversion_request b = Inr m"
    and "save_fault E m output_path (fs output_path) = None"
  shows "run E fs =
           (Completed,
            \<lparr>trace = [Print ''Loading ONNX model...'', Print ''Converting to CoreML...'',
                      LibConvert conversion_request, Print ''Saving CoreML model...'',
                      LibSave output_path, Print ''Conversion complete!''],
             files = fs(output_path \<mapsto> package E m)\<rparr>)"
  using assms
  by (simp add: run_def script_def print_def ct_convert_def mlmodel_save_def resolve_def Let_def
      conversion_request_def output_path_def)


lemma run_cases [case_names missing broken absent rejected save_failed saved]:
  obtains
    e where "try_imports E = Some e" and "isinstance_ImportError e"
  | e where "try_imports E = Some e" and "\<not> isinstance_ImportError e"
  | "try_imports E = None" and "fs (resolve (cwd E) ''silero_vad.onnx'') = None"
  | b e where "try_imports E = None" and "fs (resolve (cwd E) ''silero_vad.onnx'') = Some b"
      and "translate E conversion_request b = Inl e"
  | b m e left where "try_imports E = None"
      and "fs (resolve (cwd E) ''silero_vad.onnx'') = Some b"
      and "translate E conversion_request b = Inr m"
      and "save_fault E m output_path (fs output_path) = Some (e, left)"
  | b m where "try_imports E = None" and "fs (resolve (cwd E) ''silero_vad.onnx'') = Some b"
      and "translate E conversion_request b = Inr m"
      and "save_fault E m output_path (fs output_path) = None"
proof (cases "try_imports E")
  case (Some e)
  then show ?thesis using that(1,2) by (cases "isinstance_ImportError e") auto
next
  case None
  show ?thesis
  proof (cases "fs (resolve (cwd E) ''silero_vad.onnx'')")
    case absent: None
    with None show ?thesis using that(3) by simp
  next
    case present: (Some b)
    show ?thesis
    proof (cases "translate E conversion_request b")
      case (Inl e)
      with None present show ?thesis using that(4) by simp
    next
      case (Inr m)
      show ?thesis
      proof (cases "save_fault E m output_path (fs output_path)")
        case ok: None
        with None present Inr show ?thesis using that(6) by simp
      next
        case fault: (Some p)
        obtain e left where "p = (e, left)" by (cases p)
        with None present Inr fault show ?thesis using that(5) by simp
      qed
    qed
  qed
qed


lemma convert_calls_run:
  "convert_calls (trace (snd (run E fs))) =
     (if try_imports E = None then [conversion_request] else [])"
proof (cases rule: run_cases [where E = E and fs = fs])
  case (missing e) then show ?thesis by (simp add: run_import_error)
next
  case (broken e) then show ?thesis by (simp add: run_import_other)
next
  case absent then show ?thesis by (simp add: run_source_absent)
next
  case (rejected b e) then show ?thesis by (simp add: run_convert_raises)
next
  case (save_failed b m e left) then show ?thesis by (simp add: run_save_raises)
next
  case (saved b m) then show ?thesis by (simp add: run_completes)
qed

lemma example_imports: "try_imports example_env = None"
  by (simp add: try_imports_def example_env_def)

lemma example_source: "example_fs (resolve (cwd example_env) ''silero_vad.onnx'') = Some ''onnx-graph''"
  by (simp add: example_fs_def example_env_def resolve_def)

lemma example_translate: "translate example_env conversion_request ''onnx-graph'' = Inr (MLModel ''vad'')"
  by (simp add: example_env_def)

lemma example_no_artifact: "example_fs output_path = None"
  by (simp add: example_fs_def output_path_def)

lemma example_save: "save_fault example_env m q old = None"
  by (simp add: example_env_def)

lemma example_package: "package example_env (MLModel ''vad'') = ''mlpackage:vad''"
  by (simp add: example_env_def)

lemma last_source_path: "last (resolve d ''silero_vad.onnx'') = CHR ''x''"
  by (simp add: resolve_def)

lemma source_not_output: "resolve d ''silero_vad.onnx'' \<noteq> output_path"
proof
  assume "resolve d ''silero_vad.onnx'' = output_path"
  then have "last (resolve d ''silero_vad.onnx'') = last output_path" by simp
  then show False by (simp add: last_source_path output_path_def)
qed

lemma try_imports_args [simp]: "try_imports (E\<lparr>argv := a, environ := v\<rparr>) = try_imports E"
  by (simp add: try_imports_def split: option.split)

lemma ct_convert_args [simp]: "ct_convert (E\<lparr>argv := a, environ := v\<rparr>) = ct_convert E"
  by (simp add: ct_convert_def fun_eq_iff Let_def split: option.split)

lemma mlmodel_save_args [simp]: "mlmodel_save (E\<lparr>argv := a, environ := v\<rparr>) = mlmodel_save E"
  by (simp add: mlmodel_save_def fun_eq_iff Let_def split: option.split)

lemma run_ignores_args: "run (E\<lparr>argv := a, environ := v\<rparr>) fs = run E fs"
  unfolding run_def script_def try_imports_args ct_convert_args mlmodel_save_args
  by (rule refl)

lemma run_depends_on_source:
  assumes src: "fs' (resolve (cwd E) ''silero_vad.onnx'') = fs (resolve (cwd E) ''silero_vad.onnx'')"
    and dst: "fs' output_path = fs output_path"
  shows "fst (run E fs') = fst (run E fs) \<and> trace (snd (run E fs')) = trace (snd (run E fs))"
proof (cases rule: run_cases [where E = E and fs = fs])
  case (missing e)
  show ?thesis
    by (simp add: run_import_error [where E = E, OF missing])
next
  case (broken e)
  show ?thesis
    by (simp add: run_import_other [where E = E, OF broken])
next
  case absent
  from absent(2) src have a': "fs' (resolve (cwd E) ''silero_vad.onnx'') = None" by simp
  show ?thesis
    by (simp add: run_source_absent [where E = E and fs = fs, OF absent]
        run_source_absent [where E = E and fs = fs', OF absent(1) a'])
next
  case (rejected b e)
  from rejected(2) src have a': "fs' (resolve (cwd E) ''silero_vad.onnx'') = Some b" by simp
  show ?thesis
    by (simp add: run_convert_raises [where E = E and fs = fs, OF rejected]
        run_convert_raises [where E = E and fs = fs', OF rejected(1) a' rejected(3)])
next
  case (save_failed b m e left)
  from save_failed(2) src have a': "fs' (resolve (cwd E) ''silero_vad.onnx'') = Some b" by simp
  from save_failed(4) dst have f': "save_fault E m output_path (fs' output_path) = Some (e, left)"
    by simp
  show ?thesis
    by (simp add: run_save_raises [where E = E and fs = fs, OF save_failed]
        run_save_raises [where E = E and fs = fs', OF save_failed(1) a' save_failed(3) f'])
next
  case (saved b m)
  from saved(2) src have a': "fs' (resolve (cwd E) ''silero_vad.onnx'') = Some b" by simp
  from saved(4) dst have f': "save_fault E m output_path (fs' output_path) = None" by simp
  show ?thesis
    by (simp add: run_completes [where E = E and fs = fs, OF saved]
        run_completes [where E = E and fs = fs', OF saved(1) a' saved(3) f'])
qed

lemma save_calls_run: "set (save_calls (trace (snd (run E fs)))) \<subseteq> {output_path}"
proof (cases rule: run_cases [where E = E and fs = fs])
  case (missing e) then show ?thesis by (simp add: run_import_error)
next
  case (broken e) then show ?thesis by (simp add: run_import_other)
next
  case absent then show ?thesis by (simp add: run_source_absent)
next
  case (rejected b e) then show ?thesis by (simp add: run_convert_raises)
next
  case (save_failed b m e left) then show ?thesis by (simp add: run_save_raises)
next
  case (saved b m) then show ?thesis by (simp add: run_completes)
qed

lemma elsewhere_imports: "try_imports elsewhere_env = None"
  by (simp add: try_imports_def elsewhere_env_def example_env_def)

lemma elsewhere_source: "example_fs (resolve (cwd elsewhere_env) ''silero_vad.onnx'') = None"
  by (simp add: example_fs_def elsewhere_env_def resolve_def)

lemma example_run_completes: "fst (run example_env example_fs) = Completed"
proof -
  have f: "save_fault example_env (MLModel ''vad'') output_path (example_fs output_path) = None"
    by (rule example_save)
  show ?thesis
    by (simp add: run_completes [where E = example_env and fs = example_fs,
          OF example_imports example_source example_translate f])
qed

lemma elsewhere_run_fails: "fst (run elsewhere_env example_fs) = Uncaught ConversionError"
  by (simp add: run_source_absent [where E = elsewhere_env and fs = example_fs,
        OF elsewhere_imports elsewhere_source])

section \<open>The claims\<close>

text \<open>
  C1, as amended. For every run in which both libraries load, a source model the converter
  accepts is present at the path the literal \<^verbatim>\<open>silero_vad.onnx\<close> resolves to,
  and the save to the destination does not fail: the run ends normally with status 0, prints
  exactly the four progress lines, and the file system afterwards is the one before with the
  packaged model at the fixed destination path and nothing else changed.
\<close>

theorem run_success_writes_artifact:
  assumes "try_imports E = None"
    and "fs (resolve (cwd E) ''silero_vad.onnx'') = Some b"
    and "translate E conversion_request b = Inr m"
    and "save_fault E m output_path (fs output_path) = None"
  shows "fst (run E fs) = Completed
       \<and> exit_status (fst (run E fs)) = 0
       \<and> stdout_lines (trace (snd (run E fs))) =
           [''Loading ONNX model...'', ''Converting to CoreML...'',
            ''Saving CoreML model...'', ''Conversion complete!'']
       \<and> files (snd (run E fs)) =
           fs(''/Users/ebowwa/apps/ios/VAD-Test/VAD-Test/Models/silero_vad.mlpackage''
                \<mapsto> package E m)"
  using run_completes [OF assms] by (simp add: output_path_def)

theorem run_success_writes_artifact_witness:
  "try_imports example_env = None
   \<and> example_fs (resolve (cwd example_env) ''silero_vad.onnx'') = Some ''onnx-graph''
   \<and> translate example_env conversion_request ''onnx-graph'' = Inr (MLModel ''vad'')
   \<and> save_fault example_env (MLModel ''vad'') output_path (example_fs output_path) = None
   \<and> exit_status (fst (run example_env example_fs)) = 0
   \<and> stdout_lines (trace (snd (run example_env example_fs))) =
        [''Loading ONNX model...'', ''Converting to CoreML...'',
         ''Saving CoreML model...'', ''Conversion complete!'']
   \<and> files (snd (run example_env example_fs)) output_path = Some ''mlpackage:vad''"
proof -
  have f: "save_fault example_env (MLModel ''vad'') output_path (example_fs output_path) = None"
    by (rule example_save)
  show ?thesis
    using run_success_writes_artifact [OF example_imports example_source example_translate f]
      example_imports example_source example_translate f example_package
    by (simp add: output_path_def)
qed

text \<open>
  C1 as the specification states it does not hold: with both libraries loaded and a valid
  source model in place, a destination that cannot be written makes the save raise, and the
  run ends with status 1 after three progress lines and without an artifact.
\<close>

theorem valid_source_unwritable_destination_counterexample:
  "try_imports unwritable_env = None
   \<and> example_fs (resolve (cwd unwritable_env) ''silero_vad.onnx'') = Some ''onnx-graph''
   \<and> translate unwritable_env conversion_request ''onnx-graph'' = Inr (MLModel ''vad'')
   \<and> fst (run unwritable_env example_fs) = Uncaught IOError
   \<and> exit_status (fst (run unwritable_env example_fs)) = 1
   \<and> stdout_lines (trace (snd (run unwritable_env example_fs))) =
        [''Loading ONNX model...'', ''Converting to CoreML...'', ''Saving CoreML model...'']
   \<and> files (snd (run unwritable_env example_fs)) output_path = None"
proof -
  have i: "try_imports unwritable_env = None"
    by (simp add: try_imports_def unwritable_env_def example_env_def)
  have s: "example_fs (resolve (cwd unwritable_env) ''silero_vad.onnx'') = Some ''onnx-graph''"
    by (simp add: example_fs_def unwritable_env_def example_env_def resolve_def)
  have t: "translate unwritable_env conversion_request ''onnx-graph'' = Inr (MLModel ''vad'')"
    by (simp add: unwritable_env_def example_env_def)
  have f: "save_fault unwritable_env (MLModel ''vad'') output_path (example_fs output_path)
             = Some (IOError, None)"
    by (simp add: unwritable_env_def example_no_artifact)
  show ?thesis
    using run_save_raises [OF i s t f] i s t by (simp add: example_no_artifact)
qed

text \<open>
  C2. For every run in which the guarded imports fail with an \<^verbatim>\<open>ImportError\<close>
  (a library is missing), the process prints exactly the two remediation lines, ends through
  \<^verbatim>\<open>exit(1)\<close> with status 1, calls neither the conversion nor the save, and
  leaves the file system, and so every artifact, as it was.
\<close>

theorem missing_libraries_exit_1:
  assumes "try_imports E = Some e" and "isinstance_ImportError e"
  shows "stdout_lines (trace (snd (run E fs))) =
           [''Please install required packages:'',
            ''pip install coremltools onnx onnxruntime'']
       \<and> fst (run E fs) = SystemExit 1
       \<and> exit_status (fst (run E fs)) = 1
       \<and> convert_calls (trace (snd (run E fs))) = []
       \<and> save_calls (trace (snd (run E fs))) = []
       \<and> files (snd (run E fs)) = fs"
  using run_import_error [OF assms] by simp

theorem missing_libraries_exit_1_witness:
  "try_imports missing_env = Some ModuleNotFoundError
   \<and> isinstance_ImportError ModuleNotFoundError
   \<and> stdout_lines (trace (snd (run missing_env example_fs_old))) =
        [''Please install required packages:'',
         ''pip install coremltools onnx onnxruntime'']
   \<and> exit_status (fst (run missing_env example_fs_old)) = 1
   \<and> files (snd (run missing_env example_fs_old)) output_path = Some ''mlpackage:old''"
proof -
  have i: "try_imports missing_env = Some ModuleNotFoundError"
    by (simp add: try_imports_def missing_env_def)
  have c: "isinstance_ImportError ModuleNotFoundError" by simp
  show ?thesis
    using missing_libraries_exit_1 [OF i c, of example_fs_old] i
    by (simp add: example_fs_old_def)
qed

text \<open>
  C3. The conversion routine is called exactly once in every run that passes the import
  guard (and not at all in a run that does not), and its arguments are the source path
  \<^verbatim>\<open>silero_vad.onnx\<close>, the encoding \<^verbatim>\<open>mlprogram\<close>, the
  deployment target iOS 15 and the input specification list.
\<close>

theorem convert_called_once_with_fixed_arguments:
  "convert_calls (trace (snd (run E fs))) =
     (if try_imports E = None
      then [\<lparr>model = ''silero_vad.onnx'',
             convert_to = ''mlprogram'',
             minimum_deployment_target = iOS15,
             inputs = [\<lparr>name = ''input'', shape = [1, 512]\<rparr>]\<rparr>]
      else [])"
  using convert_calls_run [of E fs] by (simp add: conversion_request_def)

theorem convert_called_once_with_fixed_arguments_witness:
  "try_imports example_env = None
   \<and> convert_calls (trace (snd (run example_env example_fs))) =
       [\<lparr>model = ''silero_vad.onnx'',
         convert_to = ''mlprogram'',
         minimum_deployment_target = iOS15,
         inputs = [\<lparr>name = ''input'', shape = [1, 512]\<rparr>]\<rparr>]"
  using convert_called_once_with_fixed_arguments [of example_env example_fs] example_imports
  by simp


text \<open>
  C4. In every run, whatever the conversion routine is called with, its input specification is
  a list of exactly one tensor descriptor, named \<^verbatim>\<open>input\<close>, of shape (1, 512).
\<close>

theorem convert_inputs_single_tensor:
  assumes "LibConvert a \<in> set (trace (snd (run E fs)))"
  shows "inputs a = [\<lparr>name = ''input'', shape = [1, 512]\<rparr>]
       \<and> length (inputs a) = 1
       \<and> name (hd (inputs a)) = ''input''
       \<and> shape (hd (inputs a)) = [1, 512]"
proof -
  have "a = conversion_request"
  proof (cases rule: run_cases [where E = E and fs = fs])
    case (missing e) with assms show ?thesis by (simp add: run_import_error)
  next
    case (broken e) with assms show ?thesis by (simp add: run_import_other)
  next
    case absent with assms show ?thesis by (simp add: run_source_absent)
  next
    case (rejected b e) with assms show ?thesis by (simp add: run_convert_raises)
  next
    case (save_failed b m e left) with assms show ?thesis by (simp add: run_save_raises)
  next
    case (saved b m) with assms show ?thesis by (simp add: run_completes)
  qed
  then show ?thesis by (simp add: conversion_request_def)
qed

theorem convert_inputs_single_tensor_witness:
  "LibConvert conversion_request \<in> set (trace (snd (run elsewhere_env example_fs)))
   \<and> map name (inputs conversion_request) = [''input'']
   \<and> map shape (inputs conversion_request) = [[1, 512]]"
proof -
  have i: "try_imports elsewhere_env = None"
    by (simp add: try_imports_def elsewhere_env_def example_env_def)
  have s: "example_fs (resolve (cwd elsewhere_env) ''silero_vad.onnx'') = None"
    by (simp add: example_fs_def elsewhere_env_def resolve_def)
  have c: "LibConvert conversion_request \<in> set (trace (snd (run elsewhere_env example_fs)))"
    by (simp add: run_source_absent [where E = elsewhere_env and fs = example_fs, OF i s])
  show ?thesis
    using convert_inputs_single_tensor [OF c] c by simp
qed

text \<open>
  C5. For every run in which no file exists at the path the source literal resolves to, the
  process ends with status 1 (so non-zero), the save is never called, and the file system is
  left as it was: no artifact is produced.
\<close>

theorem absent_source_fails_before_save:
  assumes "fs (resolve (cwd E) ''silero_vad.onnx'') = None"
  shows "exit_status (fst (run E fs)) = 1
       \<and> exit_status (fst (run E fs)) \<noteq> 0
       \<and> save_calls (trace (snd (run E fs))) = []
       \<and> files (snd (run E fs)) = fs"
proof (cases rule: run_cases [where E = E and fs = fs])
  case (missing e) then show ?thesis by (simp add: run_import_error)
next
  case (broken e) then show ?thesis by (simp add: run_import_other)
next
  case absent then show ?thesis by (simp add: run_source_absent)
next
  case (rejected b e) with assms show ?thesis by simp
next
  case (save_failed b m e left) with assms show ?thesis by simp
next
  case (saved b m) with assms show ?thesis by simp
qed

theorem absent_source_fails_before_save_witness:
  "example_fs (resolve (cwd elsewhere_env) ''silero_vad.onnx'') = None
   \<and> exit_status (fst (run elsewhere_env example_fs)) = 1
   \<and> save_calls (trace (snd (run elsewhere_env example_fs))) = []
   \<and> files (snd (run elsewhere_env example_fs)) output_path = None"
proof -
  have s: "example_fs (resolve (cwd elsewhere_env) ''silero_vad.onnx'') = None"
    by (simp add: example_fs_def elsewhere_env_def resolve_def)
  show ?thesis
    using absent_source_fails_before_save [where E = elsewhere_env and fs = example_fs, OF s] s
    by (simp add: example_no_artifact)
qed

text \<open>
  C9. For every run in which the guarded imports raise an exception that is not an
  \<^verbatim>\<open>ImportError\<close>, that exception reaches the top level: nothing is printed
  (so no remediation line), the run does not end through \<^verbatim>\<open>exit(1)\<close>, no
  library routine is called and the file system is left as it was.
\<close>

theorem other_import_exception_propagates:
  assumes "try_imports E = Some e" and "\<not> isinstance_ImportError e"
  shows "fst (run E fs) = Uncaught e
       \<and> fst (run E fs) \<noteq> SystemExit 1
       \<and> trace (snd (run E fs)) = []
       \<and> stdout_lines (trace (snd (run E fs))) = []
       \<and> files (snd (run E fs)) = fs"
  using run_import_other [OF assms] by simp

theorem other_import_exception_propagates_witness:
  "try_imports broken_env = Some (OtherError ''AttributeError'')
   \<and> \<not> isinstance_ImportError (OtherError ''AttributeError'')
   \<and> fst (run broken_env example_fs) = Uncaught (OtherError ''AttributeError'')
   \<and> stdout_lines (trace (snd (run broken_env example_fs))) = []"
proof -
  have i: "try_imports broken_env = Some (OtherError ''AttributeError'')"
    by (simp add: try_imports_def broken_env_def example_env_def)
  have c: "\<not> isinstance_ImportError (OtherError ''AttributeError'')" by simp
  show ?thesis
    using other_import_exception_propagates [OF i c, of example_fs] i by simp
qed


text \<open>
  C6. Every run is of one of three kinds. It completes, the save was called once on the
  fixed path, and the file system is the old one with the new package at the output path.
  Or it ends before the save step (the save is never called) and the file system, with any
  artifact that was at the output path, is unchanged. Or it fails inside the save step, the
  one case for which nothing is promised about the output path; no other path changes.
\<close>

theorem all_or_nothing_before_save:
  "(fst (run E fs) = Completed
      \<and> save_calls (trace (snd (run E fs))) = [output_path]
      \<and> (\<exists>m. files (snd (run E fs)) = fs(output_path \<mapsto> package E m)))
   \<or> (fst (run E fs) \<noteq> Completed
      \<and> save_calls (trace (snd (run E fs))) = []
      \<and> files (snd (run E fs)) = fs)
   \<or> (\<exists>e left. fst (run E fs) = Uncaught e
      \<and> save_calls (trace (snd (run E fs))) = [output_path]
      \<and> files (snd (run E fs)) = fs(output_path := left))"
proof (cases rule: run_cases [where E = E and fs = fs])
  case (missing e) then show ?thesis by (simp add: run_import_error)
next
  case (broken e) then show ?thesis by (simp add: run_import_other)
next
  case absent then show ?thesis by (simp add: run_source_absent)
next
  case (rejected b e) then show ?thesis by (simp add: run_convert_raises)
next
  case (save_failed b m e left)
  have "files (snd (run E fs)) = fs(output_path := left)"
    by (simp add: run_save_raises [OF save_failed])
  then have "\<exists>l. files (snd (run E fs)) = fs(output_path := l)" ..
  then show ?thesis by (simp add: run_save_raises [OF save_failed])
next
  case (saved b m)
  have "files (snd (run E fs)) = fs(output_path \<mapsto> package E m)"
    by (simp add: run_completes [OF saved])
  then have "\<exists>m'. files (snd (run E fs)) = fs(output_path \<mapsto> package E m')" ..
  then show ?thesis by (simp add: run_completes [OF saved])
qed


theorem all_or_nothing_before_save_witness:
  "fst (run missing_env example_fs_old) \<noteq> Completed
   \<and> save_calls (trace (snd (run missing_env example_fs_old))) = []
   \<and> files (snd (run missing_env example_fs_old)) output_path = Some ''mlpackage:old''"
proof -
  have i: "try_imports missing_env = Some ModuleNotFoundError"
    by (simp add: try_imports_def missing_env_def)
  have r: "fst (run missing_env example_fs_old) = SystemExit 1"
    by (simp add: run_import_error [where E = missing_env, OF i])
  show ?thesis
    using all_or_nothing_before_save [where E = missing_env and fs = example_fs_old] r
    by (auto simp: example_fs_old_def)
qed

text \<open>
  C7, as amended. For every run that reaches the save step while an artifact exists at the
  fixed output path: up to and including the call of the save the run has printed the three
  progress lines and called the conversion, nothing is read from standard input, and the save
  is called once with the path literal itself, with no suffix; and when the save does not
  fail, the run completes and the old artifact is replaced by the package of the converted
  model.
\<close>

theorem save_replaces_existing_artifact:
  assumes "try_imports E = None"
    and "fs (resolve (cwd E) ''silero_vad.onnx'') = Some b"
    and "translate E conversion_request b = Inr m"
    and "fs output_path = Some old"
  shows "take 5 (trace (snd (run E fs))) =
           [Print ''Loading ONNX model...'', Print ''Converting to CoreML...'',
            LibConvert conversion_request, Print ''Saving CoreML model...'',
            LibSave ''/Users/ebowwa/apps/ios/VAD-Test/VAD-Test/Models/silero_vad.mlpackage'']
       \<and> ReadStdin \<notin> set (trace (snd (run E fs)))
       \<and> save_calls (trace (snd (run E fs))) =
           [''/Users/ebowwa/apps/ios/VAD-Test/VAD-Test/Models/silero_vad.mlpackage'']
       \<and> (save_fault E m output_path (Some old) = None \<longrightarrow>
            fst (run E fs) = Completed
            \<and> files (snd (run E fs)) = fs(output_path \<mapsto> package E m))"
proof (cases "save_fault E m output_path (fs output_path)")
  case None
  show ?thesis
    using None assms(4)
    by (simp add: run_completes [where E = E and fs = fs, OF assms(1,2,3) None] output_path_def)
next
  case (Some p)
  obtain e left where p: "p = (e, left)" by (cases p)
  from Some p have f: "save_fault E m output_path (fs output_path) = Some (e, left)" by simp
  show ?thesis
    using f assms(4)
    by (simp add: run_save_raises [where E = E and fs = fs, OF assms(1,2,3) f] output_path_def)
qed

theorem save_replaces_existing_artifact_witness:
  "try_imports example_env = None
   \<and> example_fs_old (resolve (cwd example_env) ''silero_vad.onnx'') = Some ''onnx-graph''
   \<and> translate example_env conversion_request ''onnx-graph'' = Inr (MLModel ''vad'')
   \<and> example_fs_old output_path = Some ''mlpackage:old''
   \<and> save_fault example_env (MLModel ''vad'') output_path (Some ''mlpackage:old'') = None
   \<and> ReadStdin \<notin> set (trace (snd (run example_env example_fs_old)))
   \<and> fst (run example_env example_fs_old) = Completed
   \<and> files (snd (run example_env example_fs_old)) output_path = Some ''mlpackage:vad''"
proof -
  have s: "example_fs_old (resolve (cwd example_env) ''silero_vad.onnx'') = Some ''onnx-graph''"
    using example_source source_not_output [of "cwd example_env"]
    by (simp add: example_fs_old_def)
  have d: "example_fs_old output_path = Some ''mlpackage:old''"
    by (simp add: example_fs_old_def)
  have f: "save_fault example_env (MLModel ''vad'') output_path (Some ''mlpackage:old'') = None"
    by (rule example_save)
  show ?thesis
    using save_replaces_existing_artifact
            [where E = example_env and fs = example_fs_old, OF example_imports s example_translate d]
          example_imports s example_translate d f example_package
    by simp
qed

text \<open>
  C7 as the specification states it does not hold: the run below reaches the save step with
  an artifact at the output path, the save raises because the destination cannot be written,
  and the old artifact is still there afterwards.
\<close>

theorem existing_artifact_kept_counterexample:
  "example_fs_old output_path = Some ''mlpackage:old''
   \<and> save_calls (trace (snd (run unwritable_env example_fs_old))) = [output_path]
   \<and> fst (run unwritable_env example_fs_old) = Uncaught IOError
   \<and> files (snd (run unwritable_env example_fs_old)) output_path = Some ''mlpackage:old''"
proof -
  have i: "try_imports unwritable_env = None"
    by (simp add: try_imports_def unwritable_env_def example_env_def)
  have c: "cwd unwritable_env = cwd example_env"
    by (simp add: unwritable_env_def)
  have s: "example_fs_old (resolve (cwd unwritable_env) ''silero_vad.onnx'') = Some ''onnx-graph''"
    using example_source source_not_output [of "cwd example_env"]
    by (simp add: example_fs_old_def c)
  have t: "translate unwritable_env conversion_request ''onnx-graph'' = Inr (MLModel ''vad'')"
    by (simp add: unwritable_env_def example_env_def)
  have d: "example_fs_old output_path = Some ''mlpackage:old''"
    by (simp add: example_fs_old_def)
  have f: "save_fault unwritable_env (MLModel ''vad'') output_path (example_fs_old output_path)
             = Some (IOError, Some ''mlpackage:old'')"
    by (simp add: unwritable_env_def d)
  show ?thesis
    using run_save_raises [where E = unwritable_env and fs = example_fs_old, OF i s t f] d
    by simp
qed


text \<open>
  C10. The model argument of the conversion is the literal \<^verbatim>\<open>silero_vad.onnx\<close>,
  a relative path, which the process resolves against its working directory; the path the
  save is called with is an absolute literal, which resolves to itself from every working
  directory. The outcome and the effects of a run depend on the file system only through the
  file at the resolved source path (and what is at the output path): the same file system
  converts from \<^verbatim>\<open>/work\<close> and fails from \<^verbatim>\<open>/tmp\<close>. The command
  line and the environment variables have no influence on the run.
\<close>

theorem source_resolved_against_cwd:
  "\<not> is_absolute ''silero_vad.onnx''
   \<and> is_absolute ''/Users/ebowwa/apps/ios/VAD-Test/VAD-Test/Models/silero_vad.mlpackage''
   \<and> resolve d ''/Users/ebowwa/apps/ios/VAD-Test/VAD-Test/Models/silero_vad.mlpackage''
       = ''/Users/ebowwa/apps/ios/VAD-Test/VAD-Test/Models/silero_vad.mlpackage''
   \<and> (d \<noteq> [] \<and> last d \<noteq> CHR ''/'' \<longrightarrow>
        resolve d ''silero_vad.onnx'' = d @ ''/silero_vad.onnx'')
   \<and> map model (convert_calls (trace (snd (run E fs))))
       = (if try_imports E = None then [''silero_vad.onnx''] else [])
   \<and> set (save_calls (trace (snd (run E fs))))
       \<subseteq> {''/Users/ebowwa/apps/ios/VAD-Test/VAD-Test/Models/silero_vad.mlpackage''}
   \<and> (fs' (resolve (cwd E) ''silero_vad.onnx'') = fs (resolve (cwd E) ''silero_vad.onnx'')
        \<and> fs' output_path = fs output_path \<longrightarrow>
        fst (run E fs') = fst (run E fs)
        \<and> trace (snd (run E fs')) = trace (snd (run E fs)))
   \<and> elsewhere_env = example_env\<lparr>cwd := ''/tmp''\<rparr>
   \<and> fst (run example_env example_fs) = Completed
   \<and> fst (run elsewhere_env example_fs) = Uncaught ConversionError
   \<and> run (E\<lparr>argv := a, environ := v\<rparr>) fs = run E fs"
proof -
  have p1: "\<not> is_absolute ''silero_vad.onnx''" by simp
  have p2: "is_absolute ''/Users/ebowwa/apps/ios/VAD-Test/VAD-Test/Models/silero_vad.mlpackage''"
    by simp
  have p3: "resolve d ''/Users/ebowwa/apps/ios/VAD-Test/VAD-Test/Models/silero_vad.mlpackage''
              = ''/Users/ebowwa/apps/ios/VAD-Test/VAD-Test/Models/silero_vad.mlpackage''"
    by (simp add: resolve_def)
  have p4: "d \<noteq> [] \<and> last d \<noteq> CHR ''/'' \<longrightarrow>
              resolve d ''silero_vad.onnx'' = d @ ''/silero_vad.onnx''"
    by (simp add: resolve_def)
  have p5: "map model (convert_calls (trace (snd (run E fs))))
              = (if try_imports E = None then [''silero_vad.onnx''] else [])"
    by (simp add: convert_calls_run conversion_request_def)
  have p6: "set (save_calls (trace (snd (run E fs))))
              \<subseteq> {''/Users/ebowwa/apps/ios/VAD-Test/VAD-Test/Models/silero_vad.mlpackage''}"
    using save_calls_run [of E fs] by (simp add: output_path_def)
  have p7: "fs' (resolve (cwd E) ''silero_vad.onnx'') = fs (resolve (cwd E) ''silero_vad.onnx'')
              \<and> fs' output_path = fs output_path \<longrightarrow>
            fst (run E fs') = fst (run E fs)
              \<and> trace (snd (run E fs')) = trace (snd (run E fs))"
    using run_depends_on_source [where E = E and fs = fs and fs' = fs'] by blast
  have p8: "elsewhere_env = example_env\<lparr>cwd := ''/tmp''\<rparr>"
    by (rule elsewhere_env_def)
  have p9: "run (E\<lparr>argv := a, environ := v\<rparr>) fs = run E fs"
    by (rule run_ignores_args)
  from p1 p2 p3 p4 p5 p6 p7 p8 example_run_completes elsewhere_run_fails p9
  show ?thesis by blast
qed

theorem source_resolved_against_cwd_witness:
  "resolve ''/work'' ''silero_vad.onnx'' = ''/work/silero_vad.onnx''
   \<and> resolve ''/tmp'' ''silero_vad.onnx'' = ''/tmp/silero_vad.onnx''
   \<and> try_imports example_env = None
   \<and> map model (convert_calls (trace (snd (run example_env example_fs)))) = [''silero_vad.onnx'']
   \<and> fst (run example_env example_fs) \<noteq> fst (run elsewhere_env example_fs)
   \<and> run (example_env\<lparr>argv := [''convert_to_coreml.py'', ''other.onnx''],
                        environ := [(''PWD'', ''/tmp'')]\<rparr>) example_fs
       = run example_env example_fs"
proof -
  have a: "''/work'' \<noteq> [] \<and> last ''/work'' \<noteq> CHR ''/''" by simp
  have b: "''/tmp'' \<noteq> [] \<and> last ''/tmp'' \<noteq> CHR ''/''" by simp
  show ?thesis
    using source_resolved_against_cwd
            [where d = "''/work''" and E = example_env and fs = example_fs and fs' = example_fs
               and a = "[''convert_to_coreml.py'', ''other.onnx'']"
               and v = "[(''PWD'', ''/tmp'')]"]
          source_resolved_against_cwd
            [where d = "''/tmp''" and E = example_env and fs = example_fs and fs' = example_fs
               and a = "[]" and v = "[]"]
          a b example_imports
    by simp
qed

end
